theory Spec2Isabelle
  imports Complex_Main "HOL-Library.AList"
begin

section \<open>The weather pipeline of the WeatherPrediction component\<close>

text \<open>
  The development follows the component \<^verbatim>\<open>WeatherPrediction\<close> of
  \<^verbatim>\<open>src/frontend/src/pages/Home.jsx\<close> (the version with \<^verbatim>\<open>resolveLocation\<close>,
  lines 537 to 1042). A JavaScript number is the real number it denotes. On the live path
  (the conversion of wind speeds, the sums and the means of the aggregator) the arithmetic
  is that of IEEE doubles: each operation is rounded by \<open>double\<close>. The synthesizer
  computes in the reals. Strings are lists of characters with codes below 256; the emoji
  that start the advice messages, and the \<^verbatim>\<open>icon\<close>, \<^verbatim>\<open>day\<close> and
  \<^verbatim>\<open>description\<close> display fields, are left out. A calendar date is the number of its
  day, counted from the first day of 1970 in local time.
\<close>

subsection \<open>Numbers and strings\<close>

definition Math_round :: "real \<Rightarrow> real" where
  \<comment> \<open>\<^verbatim>\<open>Math.round\<close>: the nearest integer, a tie going up.\<close>
  "Math_round x = of_int \<lfloor>x + 1 / 2\<rfloor>"

definition Math_floor :: "real \<Rightarrow> nat" where
  \<comment> \<open>\<^verbatim>\<open>Math.floor\<close>, used on non-negative values only (an array index).\<close>
  "Math_floor x = nat \<lfloor>x\<rfloor>"

text \<open>
  Rounding to a double. \<open>expo x\<close> is the binary exponent of a positive \<open>x\<close>: the
  \<open>e\<close> with \<open>2^e \<le> x < 2^(e+1)\<close>. \<open>rhe\<close> rounds to the nearest integer, a tie going to
  the even one. \<open>double x\<close> keeps 53 significant bits of \<open>x\<close>. Infinities, NaN,
  subnormal numbers and the sign of zero are not modelled: weather data is far from them.
\<close>

function expo :: "real \<Rightarrow> int" where
  "expo x =
    (if x \<le> 0 then 0
     else if 2 \<le> x then expo (x / 2) + 1
     else if x < 1 then expo (x * 2) - 1
     else 0)"
  by pat_completeness auto
termination
proof (relation "measure (\<lambda>x. nat \<bar>\<lfloor>log 2 x\<rfloor>\<bar>)")
  show "wf (measure (\<lambda>x. nat \<bar>\<lfloor>log 2 x\<rfloor>\<bar>))" by simp
next
  fix x :: real
  assume "\<not> x \<le> 0" and "2 \<le> x"
  then have "log 2 (x / 2) = log 2 x - 1" and "1 \<le> log 2 x"
    by (simp_all add: log_divide le_log_iff)
  then have "\<lfloor>log 2 (x / 2)\<rfloor> = \<lfloor>log 2 x\<rfloor> - 1" and "1 \<le> \<lfloor>log 2 x\<rfloor>"
    by (simp_all add: le_floor_iff)
  then have "nat \<bar>\<lfloor>log 2 (x / 2)\<rfloor>\<bar> < nat \<bar>\<lfloor>log 2 x\<rfloor>\<bar>" by linarith
  then show "(x / 2, x) \<in> measure (\<lambda>x. nat \<bar>\<lfloor>log 2 x\<rfloor>\<bar>)"
    by (simp only: in_measure)
next
  fix x :: real
  assume "\<not> x \<le> 0" and "\<not> 2 \<le> x" and "x < 1"
  then have "log 2 (x * 2) = log 2 x + 1" and "log 2 x < 0"
    by (simp_all add: log_mult)
  then have "\<lfloor>log 2 (x * 2)\<rfloor> = \<lfloor>log 2 x\<rfloor> + 1" and "\<lfloor>log 2 x\<rfloor> < 0"
    by (simp_all add: floor_less_iff)
  then have "nat \<bar>\<lfloor>log 2 (x * 2)\<rfloor>\<bar> < nat \<bar>\<lfloor>log 2 x\<rfloor>\<bar>" by linarith
  then show "(x * 2, x) \<in> measure (\<lambda>x. nat \<bar>\<lfloor>log 2 x\<rfloor>\<bar>)"
    by (simp only: in_measure)
qed

declare expo.simps [simp del]

definition rhe :: "real \<Rightarrow> int" where
  "rhe q =
    (let f = \<lfloor>q\<rfloor>; r = q - of_int f
     in if r < 1 / 2 then f else if 1 / 2 < r then f + 1 else if even f then f else f + 1)"

definition double :: "real \<Rightarrow> real" where
  "double x =
    (if x = 0 then 0
     else (let e = expo \<bar>x\<bar> - 52
           in of_int (rhe (x / 2 powi e)) * 2 powi e))"

definition fadd :: "real \<Rightarrow> real \<Rightarrow> real" where
  \<comment> \<open>\<^verbatim>\<open>a + b\<close> on doubles\<close>
  "fadd a b = double (a + b)"

definition fmul :: "real \<Rightarrow> real \<Rightarrow> real" where
  \<comment> \<open>\<^verbatim>\<open>a * b\<close> on doubles\<close>
  "fmul a b = double (a * b)"

definition fdiv :: "real \<Rightarrow> real \<Rightarrow> real" where
  \<comment> \<open>\<^verbatim>\<open>a / b\<close> on doubles\<close>
  "fdiv a b = double (a / b)"

definition is_ws :: "char \<Rightarrow> bool" where
  \<comment> \<open>The white space \<^verbatim>\<open>String.prototype.trim\<close> removes, among the characters with
      codes below 256.\<close>
  "is_ws c =
    (c \<in> set [CHR '' '', CHR 0x09, CHR 0x0A, CHR 0x0B, CHR 0x0C, CHR 0x0D, CHR 0xA0])"

definition trim :: "string \<Rightarrow> string" where
  "trim s = rev (dropWhile is_ws (rev (dropWhile is_ws s)))"

subsection \<open>Daily summaries and reports\<close>

record daily =
  date :: int
  temperature_max :: real
  temperature_min :: real
  humidity :: real
  rainfall :: real
  windSpeed :: real
  condition :: string

record report =
  location :: string
  current :: daily
  forecast :: "daily list"
  farmingAdvice :: "string list"

subsection \<open>generateFarmingAdvice\<close>

definition rainAdviceHeavy :: "string list" where
  "rainAdviceHeavy =
    [''Heavy rainfall expected - ensure proper drainage in fields'',
     ''Postpone harvesting activities if possible'',
     ''Good time for transplanting rice and other water-loving crops'']"

definition rainAdviceLow :: "string list" where
  "rainAdviceLow =
    [''Low rainfall - consider irrigation for water-sensitive crops'',
     ''Good conditions for harvesting mature crops'',
     ''Monitor soil moisture levels closely'']"

definition tempAdviceHigh :: "string list" where
  "tempAdviceHigh =
    [''High temperatures - provide shade for livestock'',
     ''Schedule farm work during cooler hours (early morning/evening)'']"

definition tempAdviceCool :: "string list" where
  "tempAdviceCool =
    [''Cool weather - protect sensitive crops from cold'',
     ''Consider frost protection measures'']"

definition humidityAdvice :: "string list" where
  "humidityAdvice =
    [''High humidity - watch for fungal diseases in crops'',
     ''Ensure good air circulation in greenhouses'']"

definition windAdvice :: "string list" where
  "windAdvice =
    [''Strong winds expected - secure loose structures'',
     ''Protect young plants from wind damage'']"

definition normalAdvice :: string where
  "normalAdvice = ''Normal weather conditions - continue regular farming activities''"

definition pushedAdvice :: "daily \<Rightarrow> string list" where
  \<comment> \<open>The array \<^verbatim>\<open>advice\<close> after the four \<^verbatim>\<open>if\<close> statements, in push order.\<close>
  "pushedAdvice currentWeather =
    (if rainfall currentWeather > 15 then rainAdviceHeavy
     else if rainfall currentWeather < 5 then rainAdviceLow else [])
    @ (if temperature_max currentWeather > 35 then tempAdviceHigh
       else if temperature_max currentWeather < 20 then tempAdviceCool else [])
    @ (if humidity currentWeather > 80 then humidityAdvice else [])
    @ (if windSpeed currentWeather > 20 then windAdvice else [])"

definition generateFarmingAdvice :: "daily \<Rightarrow> string list" where
  "generateFarmingAdvice currentWeather =
    (let advice = pushedAdvice currentWeather
     in if length advice > 0 then advice else [normalAdvice])"

definition ruleFires :: "daily \<Rightarrow> bool" where
  \<comment> \<open>One of the six threshold conditions of the advisory rules holds.\<close>
  "ruleFires w \<longleftrightarrow>
    rainfall w > 15 \<or> rainfall w < 5 \<or> temperature_max w > 35 \<or>
    temperature_max w < 20 \<or> humidity w > 80 \<or> windSpeed w > 20"

subsection \<open>generateMockWeatherData\<close>

text \<open>
  The generator reads \<^verbatim>\<open>Math.random()\<close> 52 times: three base values, then seven
  values for each of the seven days. \<open>rnd k\<close> is the value of the \<open>k\<close>-th call, and
  \<open>today\<close> the day of \<^verbatim>\<open>new Date()\<close>.
\<close>

definition mockConditions :: "string list" where
  "mockConditions = [''Sunny'', ''Partly Cloudy'', ''Cloudy'', ''Rainy'', ''Thunderstorm'']"

definition mockDay :: "(nat \<Rightarrow> real) \<Rightarrow> int \<Rightarrow> nat \<Rightarrow> daily" where
  "mockDay rnd today i =
    (let baseTemp = rnd 0 * 15 + 20;
         baseHumidity = rnd 1 * 30 + 50;
         baseRainfall = rnd 2 * 20;
         k = 3 + 7 * i
     in \<lparr> date = today + int i,
          temperature_max = Math_round (baseTemp + rnd k * 8 - 4),
          temperature_min = Math_round (baseTemp - 5 + rnd (k + 1) * 4),
          humidity = Math_round (baseHumidity + rnd (k + 2) * 20 - 10),
          rainfall = Math_round (baseRainfall + rnd (k + 3) * 10 - 5),
          windSpeed = Math_round (rnd (k + 4) * 15 + 5),
          condition = mockConditions ! Math_floor (rnd (k + 5) * 5) \<rparr>)"

definition generateMockWeatherData :: "(nat \<Rightarrow> real) \<Rightarrow> int \<Rightarrow> string \<Rightarrow> report" where
  "generateMockWeatherData rnd today loc =
    (let forecast = map (mockDay rnd today) [0..<7]
     in \<lparr> location = loc,
          current = forecast ! 0,
          forecast = forecast,
          farmingAdvice = generateFarmingAdvice (forecast ! 0) \<rparr>)"

definition validDraws :: "(nat \<Rightarrow> real) \<Rightarrow> bool" where
  \<comment> \<open>\<^verbatim>\<open>Math.random()\<close> returns a value in the half-open interval from 0 to 1.\<close>
  "validDraws rnd \<longleftrightarrow> (\<forall>k. 0 \<le> rnd k \<and> rnd k < 1)"

subsection \<open>getMostFrequent\<close>

text \<open>
  \<^verbatim>\<open>arr.sort(cmp).pop()\<close> with \<^verbatim>\<open>cmp(a, b) = count(a) - count(b)\<close>. The sort of
  ECMAScript is stable and compares the values it collected before sorting, so the counts
  are those of the array as passed; \<open>sort_key\<close> is the stable sort by a key. On the empty
  array \<^verbatim>\<open>pop\<close> returns \<^verbatim>\<open>undefined\<close>, here \<open>None\<close>.
\<close>

definition occurrences :: "'a list \<Rightarrow> 'a \<Rightarrow> nat" where
  \<comment> \<open>\<^verbatim>\<open>arr.filter(v => v === a).length\<close>\<close>
  "occurrences arr a = length (filter (\<lambda>v. v = a) arr)"

definition getMostFrequent :: "'a list \<Rightarrow> 'a option" where
  "getMostFrequent arr =
    (case sort_key (occurrences arr) arr of
       [] \<Rightarrow> None
     | sorted_arr \<Rightarrow> Some (last sorted_arr))"

definition isMostFrequent :: "'a list \<Rightarrow> 'a \<Rightarrow> bool" where
  \<comment> \<open>No element of the array occurs more often than \<open>v\<close>.\<close>
  "isMostFrequent arr v \<longleftrightarrow> list_all (\<lambda>w. occurrences arr w \<le> occurrences arr v) arr"

subsection \<open>Errors, provider responses and the component's state\<close>

datatype js_error =
  Error string
  | AxiosError "nat option" string
  | TypeError string

text \<open>
  \<open>AxiosError status msg\<close> is the rejection of \<^verbatim>\<open>axios.get\<close>: \<open>status\<close> is
  \<^verbatim>\<open>error.response.status\<close>, \<open>None\<close> when there is no response (a network failure).
\<close>

fun message :: "js_error \<Rightarrow> string" where
  "message (Error m) = m"
| "message (AxiosError _ m) = m"
| "message (TypeError m) = m"

record geo_entry =
  geo_name :: string
  geo_lat :: real
  geo_lon :: real
  geo_country :: "string option"
  geo_state :: "string option"

record location_info =
  label :: string
  coordinates :: "real \<times> real"
  name :: string
  country :: "string option"
  state :: "string option"

text \<open>
  The body of the current-conditions response. \<open>rain\<close> is \<open>None\<close> without a
  \<^verbatim>\<open>rain\<close> object and \<open>Some None\<close> when the object lacks the key read
  (\<^verbatim>\<open>'1h'\<close> here, \<^verbatim>\<open>'3h'\<close> in a forecast item); \<open>weather\<close> lists the \<^verbatim>\<open>main\<close>
  of each entry of the \<^verbatim>\<open>weather\<close> array.
\<close>

record current_data =
  main_temp_max :: real
  main_temp_min :: real
  main_humidity :: real
  rain :: "real option option"
  wind_speed :: real
  weather :: "string list"

record forecast_item =
  dt :: int
  item_temp :: real
  item_humidity :: real
  item_rain :: "real option option"
  item_wind_speed :: real
  item_weather :: "string list"

datatype request =
  GeoDirect string nat
  | CurrentWeather "real \<times> real"
  | Forecast "real \<times> real"

text \<open>
  Everything the component reads from outside: the two environment variables, the
  provider's answer to each request, the values of \<^verbatim>\<open>Math.random()\<close>, the day of
  \<^verbatim>\<open>new Date()\<close> and the offset in seconds of local time from UTC.
\<close>

record env =
  API_KEY :: "string option"
  BASE_URL :: "string option"
  geo_api :: "string \<Rightarrow> js_error + geo_entry list"
  weather_api :: "real \<times> real \<Rightarrow> js_error + current_data"
  forecast_api :: "real \<times> real \<Rightarrow> js_error + forecast_item list"
  random :: "nat \<Rightarrow> real"
  today :: int
  tz_offset :: int

text \<open>
  The state of the component (its \<^verbatim>\<open>useState\<close> cells) and, as a ghost field, the
  \<^verbatim>\<open>axios.get\<close> requests issued so far.
\<close>

record ui =
  weatherData :: "report option"
  selectedLocation :: string
  loading :: bool
  error :: "string option"
  locationResolving :: bool
  requests :: "request list"

definition truthy :: "string option \<Rightarrow> bool" where
  \<comment> \<open>A string that is neither \<^verbatim>\<open>undefined\<close> nor empty.\<close>
  "truthy v = (case v of None \<Rightarrow> False | Some t \<Rightarrow> t \<noteq> [])"

definition orZero :: "real option option \<Rightarrow> real" where
  \<comment> \<open>\<^verbatim>\<open>rain ? rain[key] || 0 : 0\<close>\<close>
  "orZero r = (case r of Some (Some v) \<Rightarrow> v | _ \<Rightarrow> 0)"

subsection \<open>getWeatherCondition\<close>

definition conditions_table :: "(string \<times> string) list" where
  "conditions_table =
    [(''Clear'', ''Sunny''),
     (''Clouds'', ''Cloudy''),
     (''Rain'', ''Rainy''),
     (''Drizzle'', ''Rainy''),
     (''Thunderstorm'', ''Thunderstorm''),
     (''Snow'', ''Snowy''),
     (''Mist'', ''Partly Cloudy''),
     (''Fog'', ''Partly Cloudy''),
     (''Haze'', ''Partly Cloudy'')]"

definition getWeatherCondition :: "string \<Rightarrow> string" where
  \<comment> \<open>\<^verbatim>\<open>conditions[weatherMain] || 'Partly Cloudy'\<close>. The table is the object literal;
      the keys an object inherits from its prototype are no provider values and are left
      out.\<close>
  "getWeatherCondition weatherMain =
    (case map_of conditions_table weatherMain of
       Some c \<Rightarrow> c
     | None \<Rightarrow> ''Partly Cloudy'')"

definition normalized :: "string list" where
  \<comment> \<open>The normalized condition enumeration.\<close>
  "normalized = [''Sunny'', ''Cloudy'', ''Rainy'', ''Thunderstorm'', ''Snowy'', ''Partly Cloudy'']"

subsection \<open>fetchRealWeatherData\<close>

definition undefined_main :: js_error where
  \<comment> \<open>Reading \<^verbatim>\<open>.main\<close> of \<^verbatim>\<open>weather[0]\<close> when the \<^verbatim>\<open>weather\<close> array is empty.\<close>
  "undefined_main = TypeError ''Cannot read properties of undefined (reading main)''"

definition currentSummary :: "env \<Rightarrow> current_data \<Rightarrow> js_error + daily" where
  \<comment> \<open>The object \<^verbatim>\<open>current\<close> built from \<^verbatim>\<open>currentResponse.data\<close>.\<close>
  "currentSummary E d =
    (case weather d of
       [] \<Rightarrow> Inl undefined_main
     | weatherMain # _ \<Rightarrow>
         Inr \<lparr> date = today E,
               temperature_max = Math_round (main_temp_max d),
               temperature_min = Math_round (main_temp_min d),
               humidity = main_humidity d,
               rainfall = (case rain d of None \<Rightarrow> 0 | Some r \<Rightarrow> Math_round (orZero (Some r))),
               windSpeed = Math_round (fmul (wind_speed d) (double 3.6)),
               condition = getWeatherCondition weatherMain \<rparr>)"

text \<open>
  One entry of \<^verbatim>\<open>dailyForecasts\<close>, with the arrays the items of one date are pushed
  on (\<^verbatim>\<open>icons\<close> receives the same values as \<^verbatim>\<open>conditions\<close> and is left out). The
  object \<^verbatim>\<open>dailyForecasts\<close> is an association list in insertion order, the order in which
  \<^verbatim>\<open>Object.values\<close> lists the entries of an object with such keys.
\<close>

record day_group =
  group_date :: int
  temps :: "real list"
  group_humidity :: "real list"
  group_rainfall :: "real list"
  group_windSpeed :: "real list"
  conditions :: "string list"

definition dateKey :: "env \<Rightarrow> forecast_item \<Rightarrow> int" where
  \<comment> \<open>The local calendar day of \<^verbatim>\<open>new Date(item.dt * 1000)\<close>.\<close>
  "dateKey E item = (dt item + tz_offset E) div 86400"

definition newGroup :: "int \<Rightarrow> day_group" where
  "newGroup d =
    \<lparr> group_date = d, temps = [], group_humidity = [], group_rainfall = [],
      group_windSpeed = [], conditions = [] \<rparr>"

definition pushItem :: "forecast_item \<Rightarrow> string \<Rightarrow> day_group \<Rightarrow> day_group" where
  "pushItem item weatherMain g =
    g \<lparr> temps := temps g @ [item_temp item],
        group_humidity := group_humidity g @ [item_humidity item],
        group_rainfall := group_rainfall g @ [orZero (item_rain item)],
        group_windSpeed := group_windSpeed g @ [fmul (item_wind_speed item) (double 3.6)],
        conditions := conditions g @ [weatherMain] \<rparr>"

fun groupItems ::
  "env \<Rightarrow> forecast_item list \<Rightarrow> (int \<times> day_group) list \<Rightarrow> js_error + (int \<times> day_group) list"
where
  "groupItems E [] dailyForecasts = Inr dailyForecasts"
| "groupItems E (item # items) dailyForecasts =
    (let k = dateKey E item;
         g = (case map_of dailyForecasts k of None \<Rightarrow> newGroup k | Some g \<Rightarrow> g)
     in case item_weather item of
          [] \<Rightarrow> Inl undefined_main
        | weatherMain # _ \<Rightarrow>
            groupItems E items (AList.update k (pushItem item weatherMain g) dailyForecasts))"

definition summarise :: "day_group \<Rightarrow> daily" where
  \<comment> \<open>The function mapped over the first seven groups; \<^verbatim>\<open>reduce((a, b) => a + b, 0)\<close>
      is \<open>foldl fadd 0\<close>. No group the component builds is empty; on an empty array the
      source yields infinities and NaN, which the model does not have.\<close>
  "summarise day =
    \<lparr> date = group_date day,
      temperature_max = Math_round (Max (set (temps day))),
      temperature_min = Math_round (Min (set (temps day))),
      humidity =
        Math_round
          (fdiv (foldl fadd 0 (group_humidity day)) (real (length (group_humidity day)))),
      rainfall = Math_round (foldl fadd 0 (group_rainfall day)),
      windSpeed =
        Math_round
          (fdiv (foldl fadd 0 (group_windSpeed day)) (real (length (group_windSpeed day)))),
      condition =
        (case getMostFrequent (conditions day) of Some c \<Rightarrow> c | None \<Rightarrow> ''undefined'') \<rparr>"

definition buildReport ::
  "env \<Rightarrow> location_info \<Rightarrow> current_data \<Rightarrow> forecast_item list \<Rightarrow> js_error + report"
where
  \<comment> \<open>The part of \<^verbatim>\<open>fetchRealWeatherData\<close> after the two responses have arrived.\<close>
  "buildReport E locationData currentResponse forecastResponse =
    (case currentSummary E currentResponse of
       Inl e \<Rightarrow> Inl e
     | Inr currentDay \<Rightarrow>
        (case groupItems E forecastResponse [] of
           Inl e \<Rightarrow> Inl e
         | Inr dailyForecasts \<Rightarrow>
            (let forecast = map summarise (take 7 (map snd dailyForecasts));
                 forecast = (if length forecast > 0 then forecast [0 := currentDay] else forecast)
             in Inr \<lparr> location = label locationData,
                      current = currentDay,
                      forecast = forecast,
                      farmingAdvice = generateFarmingAdvice currentDay \<rparr>)))"

definition axios_get :: "request \<Rightarrow> ui \<Rightarrow> ui" where
  \<comment> \<open>The request is recorded; its answer is read from the environment.\<close>
  "axios_get r s = s \<lparr> requests := requests s @ [r] \<rparr>"

definition fetchRealWeatherData ::
  "env \<Rightarrow> location_info \<Rightarrow> ui \<Rightarrow> (js_error + report) \<times> ui"
where
  \<comment> \<open>\<^verbatim>\<open>locationData\<close> is never null here; the \<^verbatim>\<open>catch\<close> rethrows what it caught.\<close>
  "fetchRealWeatherData E locationData s =
    (let s1 = axios_get (CurrentWeather (coordinates locationData)) s
     in case weather_api E (coordinates locationData) of
          Inl e \<Rightarrow> (Inl e, s1)
        | Inr currentResponse \<Rightarrow>
           (let s2 = axios_get (Forecast (coordinates locationData)) s1
            in case forecast_api E (coordinates locationData) of
                 Inl e \<Rightarrow> (Inl e, s2)
               | Inr forecastResponse \<Rightarrow>
                   (buildReport E locationData currentResponse forecastResponse, s2)))"

subsection \<open>resolveLocation\<close>

definition quoted :: "string \<Rightarrow> string" where
  "quoted t = [CHR 0x22] @ t @ [CHR 0x22]"

definition locationInfo :: "geo_entry \<Rightarrow> location_info" where
  "locationInfo geoData =
    \<lparr> label = geo_name geoData
        @ (case geo_state geoData of
             None \<Rightarrow> [] | Some st \<Rightarrow> if st = [] then [] else '', '' @ st)
        @ (case geo_country geoData of
             None \<Rightarrow> [] | Some c \<Rightarrow> if c = [] then [] else '', '' @ c),
      coordinates = (geo_lat geoData, geo_lon geoData),
      name = geo_name geoData,
      country = geo_country geoData,
      state = geo_state geoData \<rparr>"

definition resolveLocation_try ::
  "env \<Rightarrow> string \<Rightarrow> ui \<Rightarrow> (js_error + location_info) \<times> ui"
where
  \<comment> \<open>The \<^verbatim>\<open>try\<close> block.\<close>
  "resolveLocation_try E trimmedText s =
    (if \<not> truthy (API_KEY E) \<or> \<not> truthy (BASE_URL E)
     then (Inl (Error ''API configuration is missing''), s)
     else
      (let s1 = axios_get (GeoDirect trimmedText 5) s
       in case geo_api E trimmedText of
            Inl e \<Rightarrow> (Inl e, s1)
          | Inr [] \<Rightarrow>
              (Inl (Error (''Location '' @ quoted trimmedText
                     @ '' not found. Please check spelling or try a nearby city.'')),
               s1 \<lparr> locationResolving := False \<rparr>)
          | Inr (geoData # _) \<Rightarrow>
              (Inr (locationInfo geoData), s1 \<lparr> locationResolving := False \<rparr>)))"

definition resolveLocation_catch :: "string \<Rightarrow> js_error \<Rightarrow> js_error" where
  \<comment> \<open>The error the \<^verbatim>\<open>catch\<close> block throws for the error it caught.\<close>
  "resolveLocation_catch trimmedText e =
    (case e of
       AxiosError (Some status) m \<Rightarrow>
         if status = 401 then Error ''Invalid API key. Please check your configuration.''
         else if status = 429
           then Error ''Too many requests. Please wait a moment and try again.''
         else if status = 404
           then Error (''Location '' @ quoted trimmedText
                  @ '' not found. Please try a different location.'')
         else Error (''Unable to find location '' @ quoted trimmedText @ ''. '' @ m)
     | _ \<Rightarrow> Error (''Unable to find location '' @ quoted trimmedText @ ''. '' @ message e))"

definition resolveLocation ::
  "env \<Rightarrow> string \<Rightarrow> ui \<Rightarrow> (js_error + location_info) \<times> ui"
where
  "resolveLocation E locationText s =
    (if trim locationText = [] then (Inl (Error ''Please enter a location name''), s)
     else
      (let trimmedText = trim locationText
       in if length trimmedText < 2
          then (Inl (Error ''Location name must be at least 2 characters long''), s)
          else
           (case resolveLocation_try E trimmedText (s \<lparr> locationResolving := True \<rparr>) of
              (Inr resolved, s1) \<Rightarrow> (Inr resolved, s1)
            | (Inl e, s1) \<Rightarrow>
                (Inl (resolveLocation_catch trimmedText e),
                 s1 \<lparr> locationResolving := False \<rparr>))))"

subsection \<open>fetchWeatherData\<close>

definition tryBlock :: "env \<Rightarrow> ui \<Rightarrow> (js_error + unit) \<times> ui" where
  \<comment> \<open>The \<^verbatim>\<open>try\<close> block: resolve the location, fetch, store the report.\<close>
  "tryBlock E s =
    (case resolveLocation E (selectedLocation s) s of
       (Inl err, s1) \<Rightarrow> (Inl err, s1)
     | (Inr locationData, s1) \<Rightarrow>
        (case fetchRealWeatherData E locationData s1 of
           (Inl err, s2) \<Rightarrow> (Inl err, s2)
         | (Inr realWeatherData, s2) \<Rightarrow>
             (Inr (), s2 \<lparr> weatherData := Some realWeatherData \<rparr>)))"

definition catchBlock :: "env \<Rightarrow> js_error \<Rightarrow> ui \<Rightarrow> ui" where
  \<comment> \<open>The \<^verbatim>\<open>catch\<close> block. The generator performs no operation that can throw, so
      the inner \<^verbatim>\<open>catch\<close> is never entered.\<close>
  "catchBlock E err s =
    (let s1 = s \<lparr> error := Some (message err) \<rparr>;
         mockData =
           generateMockWeatherData (random E) (today E)
             (if selectedLocation s1 = [] then ''Unknown Location'' else selectedLocation s1);
         s2 = s1 \<lparr> weatherData := Some mockData \<rparr>
     in s2 \<lparr> error := None \<rparr>)"

definition fetchWeatherData :: "env \<Rightarrow> ui \<Rightarrow> ui" where
  "fetchWeatherData E s =
    (if trim (selectedLocation s) = []
     then s \<lparr> error := Some ''Please enter a location name'' \<rparr>
     else
      (let s1 = s \<lparr> loading := True, error := None \<rparr>;
           s3 = (case tryBlock E s1 of
                   (Inr _, s2) \<Rightarrow> s2
                 | (Inl err, s2) \<Rightarrow> catchBlock E err s2)
       in s3 \<lparr> loading := False \<rparr>))"

subsection \<open>Concrete inputs\<close>

text \<open>
  The inputs at which the properties below are evaluated: two sequences of random draws,
  two summaries, an initial state of the component with a given text typed in, a provider
  that answers (\<open>envLive\<close>) and one that finds no location and serves no weather
  (\<open>envOffline\<close>). The numbers of the provider's responses are doubles.
\<close>

definition rndLow :: "nat \<Rightarrow> real" where
  "rndLow k = (if k = 4 then 99 / 100 else 1 / 100)"

definition rndMid :: "nat \<Rightarrow> real" where
  "rndMid k = 1 / 2"

definition hotWetDay :: daily where
  "hotWetDay =
    \<lparr> date = 0, temperature_max = 38, temperature_min = 30, humidity = 85,
      rainfall = 20, windSpeed = 25, condition = ''Rainy'' \<rparr>"

definition mildDay :: daily where
  "mildDay =
    \<lparr> date = 0, temperature_max = 28, temperature_min = 21, humidity = 60,
      rainfall = 10, windSpeed = 12, condition = ''Cloudy'' \<rparr>"

definition tiedConditions :: "string list" where
  "tiedConditions = [''Rain'', ''Clouds'', ''Clear'', ''Clouds'', ''Rain'']"

definition ui0 :: "string \<Rightarrow> ui" where
  "ui0 t =
    \<lparr> weatherData = None, selectedLocation = t, loading = False, error = None,
      locationResolving = False, requests = [] \<rparr>"

definition delhiGeo :: geo_entry where
  "delhiGeo =
    \<lparr> geo_name = ''Delhi'', geo_lat = 28.6517, geo_lon = 77.2219,
      geo_country = Some ''IN'', geo_state = Some ''Delhi'' \<rparr>"

definition liveCurrent :: current_data where
  "liveCurrent =
    \<lparr> main_temp_max = 31.25, main_temp_min = 27.75, main_humidity = 58,
      rain = None, wind_speed = 4.25, weather = [''Haze''] \<rparr>"

definition liveForecast :: "forecast_item list" where
  "liveForecast =
    [\<lparr> dt = 1762160400, item_temp = 29.25, item_humidity = 40, item_rain = None,
        item_wind_speed = 3, item_weather = [''Clouds''] \<rparr>,
     \<lparr> dt = 1762246800, item_temp = 30.25, item_humidity = 35, item_rain = None,
        item_wind_speed = 2.5, item_weather = [''Clear''] \<rparr>,
     \<lparr> dt = 1762257600, item_temp = 31.75, item_humidity = 30, item_rain = Some (Some 0.25),
        item_wind_speed = 3.5, item_weather = [''Clear''] \<rparr>]"

definition envLive :: env where
  "envLive =
    \<lparr> API_KEY = Some ''k'', BASE_URL = Some ''https://api.openweathermap.org/data/2.5'',
      geo_api = (\<lambda>q. if q = ''delhi'' then Inr [delhiGeo] else Inr []),
      weather_api = (\<lambda>c. Inr liveCurrent),
      forecast_api = (\<lambda>c. Inr liveForecast),
      random = (\<lambda>k. 1 / 2), today = 20395, tz_offset = 19800 \<rparr>"

definition envOffline :: env where
  "envOffline =
    \<lparr> API_KEY = Some ''k'', BASE_URL = Some ''https://api.openweathermap.org/data/2.5'',
      geo_api = (\<lambda>q. Inr []),
      weather_api = (\<lambda>c. Inl (AxiosError None ''Network Error'')),
      forecast_api = (\<lambda>c. Inl (AxiosError None ''Network Error'')),
      random = (\<lambda>k. 1 / 2), today = 20395, tz_offset = 19800 \<rparr>"

definition liveReport :: report where
  "liveReport =
    \<lparr> location = ''Delhi, Delhi, IN'',
      current =
        \<lparr> date = 20395, temperature_max = 31, temperature_min = 28, humidity = 58,
          rainfall = 0, windSpeed = 15, condition = ''Partly Cloudy'' \<rparr>,
      forecast =
        [\<lparr> date = 20395, temperature_max = 31, temperature_min = 28, humidity = 58,
            rainfall = 0, windSpeed = 15, condition = ''Partly Cloudy'' \<rparr>,
         \<lparr> date = 20396, temperature_max = 32, temperature_min = 30, humidity = 33,
            rainfall = 0, windSpeed = 11, condition = ''Clear'' \<rparr>],
      farmingAdvice = rainAdviceLow \<rparr>"

definition scenarioItems :: "forecast_item list" where
  \<comment> \<open>Three samples of one date; the wind speeds are the doubles nearest to 5, 10 and
      15 km/h in m/s.\<close>
  "scenarioItems =
    [\<lparr> dt = 1762246800, item_temp = 18, item_humidity = 60, item_rain = None,
        item_wind_speed = double (25 / 18), item_weather = [''Clouds''] \<rparr>,
     \<lparr> dt = 1762257600, item_temp = 22, item_humidity = 65, item_rain = Some (Some 2),
        item_wind_speed = double (25 / 9), item_weather = [''Rain''] \<rparr>,
     \<lparr> dt = 1762268400, item_temp = 25, item_humidity = 70, item_rain = Some None,
        item_wind_speed = double (25 / 6), item_weather = [''Clouds''] \<rparr>]"

definition scenarioResponse :: "forecast_item list" where
  \<comment> \<open>A forecast response of two dates: one sample of the first, then the scenario.\<close>
  "scenarioResponse =
    \<lparr> dt = 1762160400, item_temp = 29.25, item_humidity = 40, item_rain = None,
      item_wind_speed = 3, item_weather = [''Clouds''] \<rparr> # scenarioItems"

definition scenarioGroup :: day_group where
  \<comment> \<open>The arrays of the scenario as they stand in a group, the wind in km/h.\<close>
  "scenarioGroup =
    \<lparr> group_date = 20396, temps = [18, 22, 25], group_humidity = [60, 65, 70],
      group_rainfall = [0, 2, 0], group_windSpeed = [5, 10, 15],
      conditions = [''Clouds'', ''Rain'', ''Clouds''] \<rparr>"

definition decimalItems :: "forecast_item list" where
  "decimalItems =
    [\<lparr> dt = 1762246800, item_temp = 18.25, item_humidity = 60, item_rain = None,
        item_wind_speed = 2, item_weather = [''Clouds''] \<rparr>,
     \<lparr> dt = 1762257600, item_temp = 22.75, item_humidity = 65, item_rain = None,
        item_wind_speed = 3, item_weather = [''Clouds''] \<rparr>]"

definition tiedGroup :: day_group where
  "tiedGroup =
    \<lparr> group_date = 20396, temps = [21, 24, 27, 24, 20], group_humidity = [70, 60, 50, 60, 75],
      group_rainfall = [1, 0, 0, 0, 2], group_windSpeed = [9, 9, 9, 9, 9],
      conditions = tiedConditions \<rparr>"

definition rainSamples :: "real list" where
  \<comment> \<open>Five rainfall values of one date, as parsed.\<close>
  "rainSamples = map double [0.7, 0.1, 1.83, 3.98, 0.89]"

definition pushAll :: "forecast_item list \<Rightarrow> day_group \<Rightarrow> day_group" where
  \<comment> \<open>A group after the items of a list have been pushed on it, one after the other.\<close>
  "pushAll items g =
    g \<lparr> temps := temps g @ map item_temp items,
        group_humidity := group_humidity g @ map item_humidity items,
        group_rainfall := group_rainfall g @ map (\<lambda>it. orZero (item_rain it)) items,
        group_windSpeed :=
          group_windSpeed g @ map (\<lambda>it. fmul (item_wind_speed it) (double 3.6)) items,
        conditions := conditions g @ map (\<lambda>it. hd (item_weather it)) items \<rparr>"

definition rainGroup :: day_group where
  \<comment> \<open>A group of five samples with the rainfall values of \<open>rainSamples\<close>.\<close>
  "rainGroup =
    \<lparr> group_date = 20396, temps = [21, 24, 27, 24, 20], group_humidity = [70, 60, 50, 60, 75],
      group_rainfall = rainSamples, group_windSpeed = [9, 9, 9, 9, 9],
      conditions = [''Rain'', ''Rain'', ''Rain'', ''Rain'', ''Rain''] \<rparr>"

definition decimalGroup :: day_group where
  \<comment> \<open>The group the loop builds from \<open>decimalItems\<close>.\<close>
  "decimalGroup = pushAll decimalItems (newGroup 20396)"

section \<open>Properties\<close>

lemmas advice_defs = normalAdvice_def rainAdviceHeavy_def rainAdviceLow_def tempAdviceHigh_def
  tempAdviceCool_def humidityAdvice_def windAdvice_def

lemmas live_defs = envLive_def liveForecast_def liveCurrent_def delhiGeo_def ui0_def

lemmas eval_defs = dateKey_def newGroup_def pushItem_def orZero_def Let_def
  currentSummary_def Math_round_def getWeatherCondition_def conditions_table_def
  summarise_def getMostFrequent_def occurrences_def buildReport_def
  double_def expo.simps rhe_def fadd_def fmul_def fdiv_def

lemmas resolve_defs = resolveLocation_def resolveLocation_try_def resolveLocation_catch_def
  trim_def is_ws_def truthy_def axios_get_def quoted_def Let_def

subsection \<open>Rounding\<close>

lemma Math_round_le: "x < real_of_int n + 1 / 2 \<Longrightarrow> Math_round x \<le> real_of_int n"
  unfolding Math_round_def by (simp add: floor_le_iff)

lemma Math_round_mono: "x \<le> y \<Longrightarrow> Math_round x \<le> Math_round y"
  unfolding Math_round_def by (simp add: floor_mono)

lemma Math_round_zero: "Math_round 0 = 0"
  by (simp add: Math_round_def)

lemma Math_round_nearest: "Math_round x \<in> \<int> \<and> \<bar>Math_round x - x\<bar> \<le> 1 / 2"
proof -
  have "real_of_int \<lfloor>x + 1 / 2\<rfloor> \<le> x + 1 / 2"
    and "x + 1 / 2 < real_of_int \<lfloor>x + 1 / 2\<rfloor> + 1"
    by linarith+
  then have "\<bar>real_of_int \<lfloor>x + 1 / 2\<rfloor> - x\<bar> \<le> 1 / 2"
    by linarith
  then show ?thesis
    unfolding Math_round_def by simp
qed

lemma rhe_nonneg: "0 \<le> q \<Longrightarrow> 0 \<le> rhe q"
  by (simp add: rhe_def Let_def)

lemma double_nonneg:
  assumes "0 \<le> x"
  shows "0 \<le> double x"
proof (cases "x = 0")
  case True
  then show ?thesis by (simp add: double_def)
next
  case False
  define e where "e = expo \<bar>x\<bar> - 52"
  have "0 \<le> x / 2 powi e" using assms by simp
  then have "0 \<le> rhe (x / 2 powi e)" by (rule rhe_nonneg)
  then have "0 \<le> real_of_int (rhe (x / 2 powi e)) * 2 powi e" by simp
  with False show ?thesis by (simp add: double_def Let_def e_def)
qed

lemma foldl_fadd_nonneg:
  "0 \<le> a \<Longrightarrow> list_all (\<lambda>v. 0 \<le> v) xs \<Longrightarrow> 0 \<le> foldl fadd a xs"
  by (induction xs arbitrary: a) (simp_all add: fadd_def double_nonneg)

text \<open>
  The order of the additions and the rounding of each of them show in the result: for the
  rainfall values 0.7, 0.1, 1.83, 3.98 and 0.89 the sum of the doubles, taken from left
  to right, rounds to 7, where the sum of the decimals is 7.5 and rounds to 8.
\<close>

lemma rain_sum_in_doubles:
  "Math_round (foldl fadd 0 rainSamples) = 7 \<and>
   Math_round (sum_list [0.7, 0.1, 1.83, 3.98, 0.89]) = 8"
  by (simp add: rainSamples_def eval_defs)

subsection \<open>The advisory engine\<close>

lemma normal_notin_pushed: "normalAdvice \<notin> set (pushedAdvice w)"
  by (simp add: pushedAdvice_def advice_defs)

lemma pushed_empty_iff: "pushedAdvice w = [] \<longleftrightarrow> \<not> ruleFires w"
  by (auto simp: pushedAdvice_def ruleFires_def advice_defs)

lemma windAdvice_only_when_windy:
  "\<not> windSpeed w > 20 \<Longrightarrow> set windAdvice \<inter> set (generateFarmingAdvice w) = {}"
  by (simp add: generateFarmingAdvice_def pushedAdvice_def advice_defs)

text \<open>
  \<^bold>\<open>C9\<close>. \<open>generateFarmingAdvice\<close> is a function of the summary alone: it takes no
  state and reads nothing else, so equal summaries give equal advice. The default message
  is in the advice exactly when none of the six threshold rules fires, and then it is the
  whole advice; when a rule fires the default message is absent.
\<close>

theorem advice_default_iff_no_rule:
  "(normalAdvice \<in> set (generateFarmingAdvice w) \<longleftrightarrow> \<not> ruleFires w) \<and>
   (generateFarmingAdvice w = [normalAdvice] \<longleftrightarrow> \<not> ruleFires w)"
proof (cases "pushedAdvice w = []")
  case True
  then show ?thesis
    using pushed_empty_iff [of w] by (simp add: generateFarmingAdvice_def)
next
  case False
  have "pushedAdvice w \<noteq> [normalAdvice]"
    using normal_notin_pushed [of w] by auto
  with False show ?thesis
    using pushed_empty_iff [of w] normal_notin_pushed [of w]
    by (simp add: generateFarmingAdvice_def)
qed

text \<open>
  On a hot, wet and windy day rules fire and the default message is absent; on a mild day
  none fires and the default message stands alone.
\<close>

theorem advice_default_iff_no_rule_witness:
  "ruleFires hotWetDay \<and> normalAdvice \<notin> set (generateFarmingAdvice hotWetDay) \<and>
   \<not> ruleFires mildDay \<and> generateFarmingAdvice mildDay = [normalAdvice]"
proof -
  have "ruleFires hotWetDay" by (simp add: ruleFires_def hotWetDay_def)
  moreover have "\<not> ruleFires mildDay" by (simp add: ruleFires_def mildDay_def)
  ultimately show ?thesis
    using advice_default_iff_no_rule [of hotWetDay] advice_default_iff_no_rule [of mildDay]
    by simp
qed

subsection \<open>The fallback synthesizer\<close>

lemma mockDay_windSpeed:
  assumes "validDraws rnd"
  shows "windSpeed (mockDay rnd t i) \<le> 20"
proof -
  have "rnd (3 + 7 * i + 4) < 1" using assms by (simp add: validDraws_def)
  then have "rnd (3 + 7 * i + 4) * 15 + 5 < real_of_int 20 + 1 / 2" by simp
  then have "Math_round (rnd (3 + 7 * i + 4) * 15 + 5) \<le> real_of_int 20"
    by (rule Math_round_le)
  then show ?thesis by (simp add: mockDay_def Let_def)
qed

lemma mock_current: "current (generateMockWeatherData rnd t loc) = mockDay rnd t 0"
  by (simp add: generateMockWeatherData_def Let_def upt_rec)

lemma mock_forecast:
  "forecast (generateMockWeatherData rnd t loc) = map (mockDay rnd t) [0..<7]"
  by (simp add: generateMockWeatherData_def Let_def)

lemma mock_advice:
  "farmingAdvice (generateMockWeatherData rnd t loc) = generateFarmingAdvice (mockDay rnd t 0)"
  by (simp add: generateMockWeatherData_def Let_def upt_rec)

lemma mock_length: "length (forecast (generateMockWeatherData rnd t loc)) = 7"
  by (simp add: generateMockWeatherData_def Let_def)

text \<open>
  \<^bold>\<open>C10\<close>. Whatever values in the interval from 0 (included) to 1 (excluded) the random
  draws take, every day of a synthesized report has a wind speed of at most 20 km/h, so
  the rule \<open>windSpeed > 20\<close> does not fire: neither of its two messages is in the advice
  of the report.
\<close>

theorem mock_never_strong_wind:
  assumes "validDraws rnd"
  shows "list_all (\<lambda>d. windSpeed d \<le> 20) (forecast (generateMockWeatherData rnd t loc)) \<and>
         windSpeed (current (generateMockWeatherData rnd t loc)) \<le> 20 \<and>
         set windAdvice \<inter> set (farmingAdvice (generateMockWeatherData rnd t loc)) = {}"
proof -
  have w: "\<And>i. windSpeed (mockDay rnd t i) \<le> 20"
    using assms by (rule mockDay_windSpeed)
  have "\<not> windSpeed (mockDay rnd t 0) > 20" using w [of 0] by simp
  then have "set windAdvice \<inter> set (generateFarmingAdvice (mockDay rnd t 0)) = {}"
    by (rule windAdvice_only_when_windy)
  with w show ?thesis
    by (simp add: mock_current mock_forecast mock_advice list_all_iff)
qed

text \<open>With every draw equal to one half, the synthesized wind speed is 13 km/h.\<close>

theorem mock_never_strong_wind_witness:
  "validDraws rndMid \<and>
   list_all (\<lambda>d. windSpeed d \<le> 20) (forecast (generateMockWeatherData rndMid 0 ''Pune'')) \<and>
   windSpeed (current (generateMockWeatherData rndMid 0 ''Pune'')) = 13 \<and>
   set windAdvice \<inter> set (farmingAdvice (generateMockWeatherData rndMid 0 ''Pune'')) = {}"
proof -
  have v: "validDraws rndMid" by (simp add: validDraws_def rndMid_def)
  have "windSpeed (current (generateMockWeatherData rndMid 0 ''Pune'')) = 13"
    by (simp add: mock_current mockDay_def rndMid_def Math_round_def)
  with v mock_never_strong_wind [OF v, of 0 "''Pune''"] show ?thesis by simp
qed

text \<open>
  \<^bold>\<open>C4\<close>. The claim is that every summary has \<open>tempMax \<ge> tempMin\<close> and a rainfall
  that is not negative. The synthesizer draws the jitter of the maximum and of the minimum
  independently, over ranges that overlap, and subtracts up to 5 from a base rainfall that
  can be near 0, without a bound at 0. With the draws \<open>rndLow\<close> (all 0.01 but the one for
  the minimum, 0.99) the first synthesized day has a maximum of 16 below a minimum of 19,
  and a rainfall of -5.
\<close>

theorem mock_breaks_summary_invariant:
  "validDraws rndLow \<and>
   temperature_max (current (generateMockWeatherData rndLow 0 ''Pune'')) = 16 \<and>
   temperature_min (current (generateMockWeatherData rndLow 0 ''Pune'')) = 19 \<and>
   rainfall (current (generateMockWeatherData rndLow 0 ''Pune'')) = - 5"
  by (simp add: validDraws_def mock_current mockDay_def rndLow_def Math_round_def)

subsection \<open>The daily aggregator\<close>

text \<open>
  The loop over the samples of a forecast response: every group holds the samples of its
  date, in the order of the response, and a group is created for the dates of the response
  only.
\<close>

lemma pushAll_Nil: "pushAll [] g = g"
  by (simp add: pushAll_def)

lemma pushAll_Cons:
  "pushAll (it # items) g = pushAll items (pushItem it (hd (item_weather it)) g)"
  by (simp add: pushAll_def pushItem_def)

lemma pushAll_newGroup:
  "group_date (pushAll day (newGroup k)) = k"
  "temps (pushAll day (newGroup k)) = map item_temp day"
  "group_humidity (pushAll day (newGroup k)) = map item_humidity day"
  "group_rainfall (pushAll day (newGroup k)) = map (\<lambda>it. orZero (item_rain it)) day"
  "group_windSpeed (pushAll day (newGroup k))
     = map (\<lambda>it. fmul (item_wind_speed it) (double 3.6)) day"
  "conditions (pushAll day (newGroup k)) = map (\<lambda>it. hd (item_weather it)) day"
  by (simp_all add: pushAll_def newGroup_def)

lemma groupItems_keys:
  assumes "groupItems E items acc = Inr groups"
  shows "fst ` set groups = fst ` set acc \<union> dateKey E ` set items"
  using assms
proof (induction items arbitrary: acc)
  case Nil
  then show ?case by simp
next
  case (Cons it items)
  from Cons.prems obtain m ms where w: "item_weather it = m # ms"
    by (cases "item_weather it") (simp_all add: Let_def)
  let ?k = "dateKey E it"
  let ?g = "case map_of acc ?k of None \<Rightarrow> newGroup ?k | Some g \<Rightarrow> g"
  from Cons.prems w
  have "groupItems E items (AList.update ?k (pushItem it m ?g) acc) = Inr groups"
    by (simp add: Let_def)
  then have "fst ` set groups
      = fst ` set (AList.update ?k (pushItem it m ?g) acc) \<union> dateKey E ` set items"
    by (rule Cons.IH)
  then show ?case by (simp add: dom_update)
qed

lemma groupItems_distinct:
  assumes "groupItems E items acc = Inr groups" and "distinct (map fst acc)"
  shows "distinct (map fst groups)"
  using assms
proof (induction items arbitrary: acc)
  case Nil
  then show ?case by simp
next
  case (Cons it items)
  from Cons.prems(1) obtain m ms where w: "item_weather it = m # ms"
    by (cases "item_weather it") (simp_all add: Let_def)
  let ?k = "dateKey E it"
  let ?g = "case map_of acc ?k of None \<Rightarrow> newGroup ?k | Some g \<Rightarrow> g"
  from Cons.prems(1) w
  have "groupItems E items (AList.update ?k (pushItem it m ?g) acc) = Inr groups"
    by (simp add: Let_def)
  moreover have "distinct (map fst (AList.update ?k (pushItem it m ?g) acc))"
    using Cons.prems(2) by (rule distinct_update)
  ultimately show ?case by (rule Cons.IH)
qed

lemma groupItems_group:
  assumes "groupItems E items acc = Inr groups" and "distinct (map fst acc)"
    and "(k, g) \<in> set groups"
  shows "g = pushAll (filter (\<lambda>it. dateKey E it = k) items)
               (case map_of acc k of None \<Rightarrow> newGroup k | Some g0 \<Rightarrow> g0)"
  using assms
proof (induction items arbitrary: acc)
  case Nil
  then have "map_of acc k = Some g" by simp
  then show ?case by (simp add: pushAll_Nil)
next
  case (Cons it items)
  from Cons.prems(1) obtain m ms where w: "item_weather it = m # ms"
    by (cases "item_weather it") (simp_all add: Let_def)
  let ?k = "dateKey E it"
  let ?g = "case map_of acc ?k of None \<Rightarrow> newGroup ?k | Some g \<Rightarrow> g"
  let ?acc = "AList.update ?k (pushItem it m ?g) acc"
  from Cons.prems(1) w have run: "groupItems E items ?acc = Inr groups"
    by (simp add: Let_def)
  have "distinct (map fst ?acc)"
    using Cons.prems(2) by (rule distinct_update)
  with run have g: "g = pushAll (filter (\<lambda>it. dateKey E it = k) items)
               (case map_of ?acc k of None \<Rightarrow> newGroup k | Some g0 \<Rightarrow> g0)"
    using Cons.prems(3) by (rule Cons.IH)
  show ?case
  proof (cases "?k = k")
    case True
    with g w show ?thesis
      by (auto simp: update_conv' pushAll_Cons split: option.splits)
  next
    case False
    with g show ?thesis by (simp add: update_conv')
  qed
qed

lemma groupItems_nth:
  assumes "groupItems E items [] = Inr groups" and "j < length groups"
  shows "filter (\<lambda>it. dateKey E it = fst (groups ! j)) items \<noteq> [] \<and>
         snd (groups ! j)
           = pushAll (filter (\<lambda>it. dateKey E it = fst (groups ! j)) items)
               (newGroup (fst (groups ! j)))"
proof -
  obtain k g where kg: "groups ! j = (k, g)" by (cases "groups ! j")
  with assms(2) have mem: "(k, g) \<in> set groups" by (metis nth_mem)
  then have "k \<in> fst ` set groups" by force
  then have "k \<in> dateKey E ` set items"
    using groupItems_keys [OF assms(1)] by simp
  then have "filter (\<lambda>it. dateKey E it = k) items \<noteq> []"
    by (auto simp: filter_empty_conv)
  moreover have "g = pushAll (filter (\<lambda>it. dateKey E it = k) items) (newGroup k)"
    using groupItems_group [OF assms(1) _ mem] by simp
  ultimately show ?thesis by (simp add: kg)
qed

lemma buildReport_nth:
  assumes "buildReport E loc cd items = Inr r" and "groupItems E items [] = Inr groups"
    and "0 < j" and "j < 7" and "j < length groups"
  shows "j < length (forecast r) \<and> forecast r ! j = summarise (snd (groups ! j))"
  using assms
  by (auto simp: buildReport_def Let_def split: sum.splits)

text \<open>
  Where the samples of a date follow each other in the response (the provider lists them
  in time order), the groups stand in the order of the dates.
\<close>

lemma update_new_key: "k \<notin> fst ` set al \<Longrightarrow> AList.update k v al = al @ [(k, v)]"
  by (induction al) auto

lemma update_last_key:
  "k \<notin> fst ` set pre \<Longrightarrow> AList.update k v (pre @ [(k, g)]) = pre @ [(k, v)]"
  by (induction pre) auto

lemma map_of_last_key: "k \<notin> fst ` set pre \<Longrightarrow> map_of (pre @ [(k, g)]) k = Some g"
  by (induction pre) auto

lemma groupItems_same_date:
  assumes "list_all (\<lambda>it. dateKey E it = d \<and> item_weather it \<noteq> []) items"
    and "d \<notin> fst ` set pre"
  shows "groupItems E items (pre @ [(d, g)]) = Inr (pre @ [(d, pushAll items g)])"
  using assms(1)
proof (induction items arbitrary: g)
  case Nil
  show ?case by (simp add: pushAll_Nil)
next
  case (Cons it items)
  from Cons.prems obtain m ms where w: "item_weather it = m # ms"
    by (cases "item_weather it") auto
  from Cons.prems have d: "dateKey E it = d" by simp
  from Cons.prems
  have rest: "list_all (\<lambda>it. dateKey E it = d \<and> item_weather it \<noteq> []) items"
    by simp
  have "groupItems E (it # items) (pre @ [(d, g)])
        = groupItems E items (pre @ [(d, pushItem it m g)])"
    using assms(2) by (simp add: w d update_last_key map_of_last_key del: map_of_append)
  also have "\<dots> = Inr (pre @ [(d, pushAll items (pushItem it m g))])"
    by (rule Cons.IH [OF rest])
  also have "pushAll items (pushItem it m g) = pushAll (it # items) g"
    by (simp add: pushAll_Cons w)
  finally show ?case .
qed

lemma groupItems_new_date:
  assumes "items \<noteq> []"
    and "list_all (\<lambda>it. dateKey E it = d \<and> item_weather it \<noteq> []) items"
    and "d \<notin> fst ` set acc"
  shows "groupItems E items acc = Inr (acc @ [(d, pushAll items (newGroup d))])"
proof -
  from assms(1) obtain it rest where items: "items = it # rest" by (cases items) auto
  from assms(2) items obtain m ms where w: "item_weather it = m # ms"
    by (cases "item_weather it") auto
  from assms(2) items have d: "dateKey E it = d"
    and rest: "list_all (\<lambda>it. dateKey E it = d \<and> item_weather it \<noteq> []) rest"
    by simp_all
  have none: "map_of acc d = None"
    using assms(3) by (simp add: map_of_eq_None_iff)
  have "groupItems E items acc = groupItems E rest (acc @ [(d, pushItem it m (newGroup d))])"
    using assms(3) by (simp add: items w d none update_new_key)
  also have "\<dots> = Inr (acc @ [(d, pushAll rest (pushItem it m (newGroup d)))])"
    using rest assms(3) by (rule groupItems_same_date)
  also have "pushAll rest (pushItem it m (newGroup d)) = pushAll items (newGroup d)"
    by (simp add: pushAll_Cons w items)
  finally show ?thesis .
qed

lemma groupItems_append:
  "groupItems E (xs @ ys) acc
     = (case groupItems E xs acc of Inl e \<Rightarrow> Inl e | Inr a \<Rightarrow> groupItems E ys a)"
  by (induction xs arbitrary: acc) (simp_all add: Let_def split: list.splits)

lemma groupItems_two_dates:
  assumes "xs \<noteq> []" and "list_all (\<lambda>it. dateKey E it = d1 \<and> item_weather it \<noteq> []) xs"
    and "ys \<noteq> []" and "list_all (\<lambda>it. dateKey E it = d2 \<and> item_weather it \<noteq> []) ys"
    and "d1 \<noteq> d2"
  shows "groupItems E (xs @ ys) []
         = Inr [(d1, pushAll xs (newGroup d1)), (d2, pushAll ys (newGroup d2))]"
proof -
  have "groupItems E xs [] = Inr [(d1, pushAll xs (newGroup d1))]"
    using groupItems_new_date [OF assms(1,2), of "[]"] by simp
  moreover have "groupItems E ys [(d1, pushAll xs (newGroup d1))]
        = Inr [(d1, pushAll xs (newGroup d1)), (d2, pushAll ys (newGroup d2))]"
    using groupItems_new_date [OF assms(3,4), of "[(d1, pushAll xs (newGroup d1))]"] assms(5)
    by simp
  ultimately show ?thesis by (simp add: groupItems_append)
qed

text \<open>
  The summaries of the groups keep the order of maximum and minimum, and a rainfall that
  is not negative when no sample has a negative one; no group the loop builds is empty.
\<close>

lemma summarise_max_ge_min:
  assumes "temps g \<noteq> []"
  shows "temperature_min (summarise g) \<le> temperature_max (summarise g)"
proof -
  from assms obtain x where "x \<in> set (temps g)" by (cases "temps g") auto
  then have "Min (set (temps g)) \<le> x" and "x \<le> Max (set (temps g))" by simp_all
  then have "Min (set (temps g)) \<le> Max (set (temps g))" by (rule order_trans)
  then show ?thesis by (simp add: summarise_def Math_round_mono)
qed

lemma summarise_rainfall_nonneg:
  assumes "list_all (\<lambda>v. 0 \<le> v) (group_rainfall g)"
  shows "0 \<le> rainfall (summarise g)"
proof -
  have "0 \<le> foldl fadd 0 (group_rainfall g)"
    using assms by (intro foldl_fadd_nonneg) simp_all
  then have "Math_round 0 \<le> Math_round (foldl fadd 0 (group_rainfall g))"
    by (rule Math_round_mono)
  then show ?thesis by (simp add: summarise_def Math_round_zero)
qed

lemma update_list_all:
  assumes "list_all P al" and "P (k, v)"
  shows "list_all P (AList.update k v al)"
  using assms by (induction al) auto

lemma groupItems_groups_nonempty:
  assumes "groupItems E items acc = Inr d"
    and "list_all (\<lambda>(k, g). temps g \<noteq> []) acc"
  shows "list_all (\<lambda>(k, g). temps g \<noteq> []) d"
  using assms
proof (induction items arbitrary: acc)
  case Nil
  then show ?case by simp
next
  case (Cons it items)
  from Cons.prems(1) obtain m ms where w: "item_weather it = m # ms"
    by (cases "item_weather it") (simp_all add: Let_def)
  let ?k = "dateKey E it"
  let ?g = "case map_of acc ?k of None \<Rightarrow> newGroup ?k | Some g \<Rightarrow> g"
  have "temps (pushItem it m ?g) \<noteq> []" by (simp add: pushItem_def)
  with Cons.prems(2)
  have "list_all (\<lambda>(k, g). temps g \<noteq> []) (AList.update ?k (pushItem it m ?g) acc)"
    by (intro update_list_all) simp_all
  moreover from Cons.prems(1) w
  have "groupItems E items (AList.update ?k (pushItem it m ?g) acc) = Inr d"
    by (simp add: Let_def)
  ultimately show ?case by (rule Cons.IH [rotated])
qed

text \<open>
  \<^bold>\<open>C7\<close>, as stated, takes \<open>tempMax\<close> and \<open>tempMin\<close> for the maximum and the minimum
  temperature of the group. The source rounds both: for the temperatures 18.25 and 22.75
  the summary holds 23 and 18, not 22.75 and 18.25. As stated it also takes the rainfall
  for the rounded sum of the values: the source adds doubles from left to right, and for
  the values of \<open>rainSamples\<close> the summary holds 7, where their sum rounds to 8.
\<close>

theorem summary_temperature_rounded_counterexample:
  "groupItems envLive decimalItems [] = Inr [(20396, decimalGroup)] \<and>
   Max (set (temps decimalGroup)) = 22.75 \<and> temperature_max (summarise decimalGroup) = 23 \<and>
   Min (set (temps decimalGroup)) = 18.25 \<and> temperature_min (summarise decimalGroup) = 18 \<and>
   temperature_max (summarise decimalGroup) \<noteq> Max (set (temps decimalGroup)) \<and>
   temperature_min (summarise decimalGroup) \<noteq> Min (set (temps decimalGroup)) \<and>
   group_rainfall rainGroup = map double [0.7, 0.1, 1.83, 3.98, 0.89] \<and>
   rainfall (summarise rainGroup) = 7 \<and>
   Math_round (sum_list (group_rainfall rainGroup)) = 8"
proof -
  have "groupItems envLive decimalItems [] = Inr ([] @ [(20396, decimalGroup)])"
    unfolding decimalGroup_def
    by (rule groupItems_new_date) (simp_all add: decimalItems_def dateKey_def envLive_def)
  moreover have "temps decimalGroup = [18.25, 22.75]"
    by (simp add: decimalGroup_def pushAll_newGroup decimalItems_def)
  moreover have "group_rainfall rainGroup = map double [0.7, 0.1, 1.83, 3.98, 0.89]"
    by (simp add: rainGroup_def rainSamples_def)
  moreover have "rainfall (summarise rainGroup) = 7"
    "Math_round (sum_list (group_rainfall rainGroup)) = 8"
    by (simp_all add: rainGroup_def rainSamples_def eval_defs)
  ultimately show ?thesis
    by (simp add: summarise_def Math_round_def)
qed

text \<open>
  \<^bold>\<open>C7\<close>, amended. For every forecast response and every group the aggregator builds
  from it, the samples of the group's date are not empty and the summary of the group has:
  \<open>tempMax\<close> the maximum temperature of these samples rounded to the nearest integer,
  \<open>tempMin\<close> the minimum temperature rounded to the nearest integer, the humidity their
  mean humidity rounded, the rainfall the sum of their rainfall rounded, and the wind speed
  the mean of their wind speeds in km/h rounded. Sums are taken from left to right and,
  like the conversion to km/h and the division by the number of samples, in double
  arithmetic; \<open>Math_round_nearest\<close>: the rounded value is an integer at most one half
  away. In a report the summary of the group at a position from 1 to 6 is the forecast day
  at that position.
\<close>

theorem summary_of_each_date:
  fixes E items groups j
  defines "day \<equiv> filter (\<lambda>it. dateKey E it = fst (groups ! j)) items"
    and "s \<equiv> summarise (snd (groups ! j))"
  assumes "groupItems E items [] = Inr groups" and "j < length groups"
  shows "day \<noteq> [] \<and> date s = fst (groups ! j) \<and>
     temperature_max s = Math_round (Max (set (map item_temp day))) \<and>
     temperature_min s = Math_round (Min (set (map item_temp day))) \<and>
     humidity s
       = Math_round (fdiv (foldl fadd 0 (map item_humidity day)) (real (length day))) \<and>
     rainfall s
       = Math_round (foldl fadd 0 (map (\<lambda>it. orZero (item_rain it)) day)) \<and>
     windSpeed s
       = Math_round (fdiv (foldl fadd 0 (map (\<lambda>it. fmul (item_wind_speed it) (double 3.6)) day))
                       (real (length day))) \<and>
     (\<forall>loc cd r. buildReport E loc cd items = Inr r \<longrightarrow> 0 < j \<longrightarrow> j < 7 \<longrightarrow>
        j < length (forecast r) \<and> forecast r ! j = s)"
proof -
  from groupItems_nth [OF assms(3,4)]
  have ne: "day \<noteq> []"
    and g: "snd (groups ! j) = pushAll day (newGroup (fst (groups ! j)))"
    by (simp_all add: day_def)
  have fields: "date s = fst (groups ! j)"
    "temperature_max s = Math_round (Max (set (map item_temp day)))"
    "temperature_min s = Math_round (Min (set (map item_temp day)))"
    "humidity s
       = Math_round (fdiv (foldl fadd 0 (map item_humidity day)) (real (length day)))"
    "rainfall s = Math_round (foldl fadd 0 (map (\<lambda>it. orZero (item_rain it)) day))"
    "windSpeed s
       = Math_round (fdiv (foldl fadd 0 (map (\<lambda>it. fmul (item_wind_speed it) (double 3.6)) day))
                       (real (length day)))"
    by (simp_all add: s_def g summarise_def pushAll_newGroup)
  have "\<forall>loc cd r. buildReport E loc cd items = Inr r \<longrightarrow> 0 < j \<longrightarrow> j < 7 \<longrightarrow>
        j < length (forecast r) \<and> forecast r ! j = s"
    using buildReport_nth [OF _ assms(3) _ _ assms(4)] by (simp add: s_def)
  with ne fields show ?thesis by simp
qed

lemma scenario_groups:
  "groupItems envLive scenarioResponse []
     = Inr [(20395, pushAll (take 1 scenarioResponse) (newGroup 20395)),
            (20396, pushAll scenarioItems (newGroup 20396))]"
proof -
  have split: "scenarioResponse = take 1 scenarioResponse @ scenarioItems"
    by (simp add: scenarioResponse_def)
  have "groupItems envLive (take 1 scenarioResponse @ scenarioItems) []
     = Inr [(20395, pushAll (take 1 scenarioResponse) (newGroup 20395)),
            (20396, pushAll scenarioItems (newGroup 20396))]"
    by (rule groupItems_two_dates)
      (simp_all add: scenarioResponse_def scenarioItems_def dateKey_def envLive_def)
  with split show ?thesis by simp
qed

lemma scenario_values:
  "Math_round (Max (set (map item_temp scenarioItems))) = 25"
  "Math_round (Min (set (map item_temp scenarioItems))) = 18"
  "Math_round (fdiv (foldl fadd 0 (map item_humidity scenarioItems))
      (real (length scenarioItems))) = 65"
  "Math_round (foldl fadd 0 (map (\<lambda>it. orZero (item_rain it)) scenarioItems)) = 2"
  "Math_round (fdiv (foldl fadd 0
      (map (\<lambda>it. fmul (item_wind_speed it) (double 3.6)) scenarioItems))
      (real (length scenarioItems))) = 10"
  by (simp_all add: scenarioItems_def eval_defs)

lemma scenario_winds:
  "map (\<lambda>it. fmul (item_wind_speed it) (double 3.6)) scenarioItems
     = [5, 10, 15 + 1 / 2 ^ 49]"
  by (simp add: scenarioItems_def eval_defs)

lemma scenario_group_summary:
  "summarise scenarioGroup
     = \<lparr> date = 20396, temperature_max = 25, temperature_min = 18, humidity = 65,
         rainfall = 2, windSpeed = 10, condition = ''Clouds'' \<rparr>"
  by (simp add: scenarioGroup_def eval_defs)

lemma scenario_report:
  "\<exists>r. buildReport envLive (locationInfo delhiGeo) liveCurrent scenarioResponse = Inr r"
  by (simp add: buildReport_def scenario_groups currentSummary_def liveCurrent_def)

lemma scenario_day:
  "filter (\<lambda>it. dateKey envLive it = 20396) scenarioResponse = scenarioItems"
  by (simp add: scenarioResponse_def scenarioItems_def dateKey_def envLive_def)

text \<open>
  The scenario of the claim, as the second date of a response: temperatures 18, 22, 25,
  humidity 60, 65, 70, rainfall 0, 2, 0 and wind speeds that the conversion takes to 5, 10
  and 15 km/h (the last one to the next double above 15) give 25, 18, 65, 2 and 10, in the
  forecast day of the report as well. So does the group that holds exactly these values.
\<close>

theorem summary_of_each_date_witness:
  "(\<exists>groups r.
      groupItems envLive scenarioResponse [] = Inr groups \<and> 1 < length groups \<and>
      fst (groups ! 1) = 20396 \<and>
      filter (\<lambda>it. dateKey envLive it = fst (groups ! 1)) scenarioResponse = scenarioItems \<and>
      buildReport envLive (locationInfo delhiGeo) liveCurrent scenarioResponse = Inr r \<and>
      forecast r ! 1 = summarise (snd (groups ! 1)) \<and>
      temperature_max (forecast r ! 1) = 25 \<and> temperature_min (forecast r ! 1) = 18 \<and>
      humidity (forecast r ! 1) = 65 \<and> rainfall (forecast r ! 1) = 2 \<and>
      windSpeed (forecast r ! 1) = 10) \<and>
   map item_temp scenarioItems = [18, 22, 25] \<and>
   map item_humidity scenarioItems = [60, 65, 70] \<and>
   map (\<lambda>it. orZero (item_rain it)) scenarioItems = [0, 2, 0] \<and>
   map (\<lambda>it. fmul (item_wind_speed it) (double 3.6)) scenarioItems = [5, 10, 15 + 1 / 2 ^ 49] \<and>
   summarise scenarioGroup
     = \<lparr> date = 20396, temperature_max = 25, temperature_min = 18, humidity = 65,
         rainfall = 2, windSpeed = 10, condition = ''Clouds'' \<rparr>"
proof -
  let ?groups = "[(20395, pushAll (take 1 scenarioResponse) (newGroup 20395)),
            (20396 :: int, pushAll scenarioItems (newGroup 20396))]"
  obtain r where r: "buildReport envLive (locationInfo delhiGeo) liveCurrent scenarioResponse = Inr r"
    using scenario_report by blast
  have len: "1 < length ?groups" by simp
  have day: "filter (\<lambda>it. dateKey envLive it = fst (?groups ! 1)) scenarioResponse = scenarioItems"
    by (simp add: scenario_day)
  note inst = summary_of_each_date [OF scenario_groups len, simplified day scenario_values]
  from inst r
  have "forecast r ! 1 = summarise (snd (?groups ! 1))"
    "temperature_max (forecast r ! 1) = 25" "temperature_min (forecast r ! 1) = 18"
    "humidity (forecast r ! 1) = 65" "rainfall (forecast r ! 1) = 2"
    "windSpeed (forecast r ! 1) = 10"
    by simp_all
  with scenario_groups r len day
  have "\<exists>groups r.
      groupItems envLive scenarioResponse [] = Inr groups \<and> 1 < length groups \<and>
      fst (groups ! 1) = 20396 \<and>
      filter (\<lambda>it. dateKey envLive it = fst (groups ! 1)) scenarioResponse = scenarioItems \<and>
      buildReport envLive (locationInfo delhiGeo) liveCurrent scenarioResponse = Inr r \<and>
      forecast r ! 1 = summarise (snd (groups ! 1)) \<and>
      temperature_max (forecast r ! 1) = 25 \<and> temperature_min (forecast r ! 1) = 18 \<and>
      humidity (forecast r ! 1) = 65 \<and> rainfall (forecast r ! 1) = 2 \<and>
      windSpeed (forecast r ! 1) = 10"
    by (intro exI [of _ ?groups] exI [of _ r]) simp
  moreover have "map item_temp scenarioItems = [18, 22, 25]"
    "map item_humidity scenarioItems = [60, 65, 70]"
    "map (\<lambda>it. orZero (item_rain it)) scenarioItems = [0, 2, 0]"
    by (simp_all add: scenarioItems_def orZero_def)
  ultimately show ?thesis
    using scenario_winds scenario_group_summary by simp
qed

subsection \<open>The majority vote\<close>

lemma last_filter_key:
  assumes "ys \<noteq> []"
  shows "last (filter (\<lambda>y. f y = f (last ys)) ys) = last ys"
proof -
  obtain zs z where "ys = zs @ [z]" using assms by (metis rev_exhaust)
  then show ?thesis by simp
qed

lemma sorted_last_max:
  assumes "sorted (map f ys)" and "y \<in> set ys"
  shows "f y \<le> f (last ys)"
proof -
  from assms(2) have "ys \<noteq> []" by auto
  then obtain zs z where "ys = zs @ [z]" by (metis rev_exhaust)
  with assms show ?thesis by (auto simp: sorted_append)
qed

lemma last_sort_key:
  assumes "xs \<noteq> []"
  shows "last (sort_key f xs) = last (filter (\<lambda>x. f x = Max (f ` set xs)) xs)"
proof -
  let ?ys = "sort_key f xs"
  define m where "m = Max (f ` set xs)"
  have ne: "?ys \<noteq> []" using assms(1) by (metis length_sort length_0_conv)
  have lin: "last ?ys \<in> set xs" using ne last_in_set set_sort by metis
  have "\<And>y. y \<in> set xs \<Longrightarrow> f y \<le> f (last ?ys)"
    using sorted_last_max [of f ?ys] by simp
  then have "f (last ?ys) = m"
    unfolding m_def using lin by (intro antisym Max_ge Max.boundedI) auto
  then have "last ?ys = last (filter (\<lambda>y. f y = m) ?ys)"
    using last_filter_key [OF ne, of f] by simp
  also have "\<dots> = last (filter (\<lambda>y. f y = m) xs)"
    by (simp only: sort_key_stable)
  finally show ?thesis by (simp add: m_def)
qed

lemma isMostFrequent_iff:
  assumes "x \<in> set arr"
  shows "isMostFrequent arr x \<longleftrightarrow> occurrences arr x = Max (occurrences arr ` set arr)"
proof
  assume "isMostFrequent arr x"
  then have "\<And>w. w \<in> set arr \<Longrightarrow> occurrences arr w \<le> occurrences arr x"
    by (simp add: isMostFrequent_def list_all_iff)
  then show "occurrences arr x = Max (occurrences arr ` set arr)"
    using assms by (intro antisym Max_ge Max.boundedI) auto
next
  assume "occurrences arr x = Max (occurrences arr ` set arr)"
  then show "isMostFrequent arr x"
    by (simp add: isMostFrequent_def list_all_iff)
qed

lemma getMostFrequent_last_mode:
  assumes "arr \<noteq> []"
  shows "getMostFrequent arr = Some (last (filter (isMostFrequent arr) arr))"
proof -
  have "filter (isMostFrequent arr) arr
        = filter (\<lambda>x. occurrences arr x = Max (occurrences arr ` set arr)) arr"
    by (rule filter_cong) (simp_all add: isMostFrequent_iff)
  moreover obtain y ys where "sort_key (occurrences arr) arr = y # ys"
    using assms by (metis length_sort length_0_conv neq_Nil_conv)
  moreover from this have "getMostFrequent arr = Some (last (sort_key (occurrences arr) arr))"
    by (simp add: getMostFrequent_def)
  ultimately show ?thesis
    using last_sort_key [OF assms, of "occurrences arr"] by simp
qed

lemma mostFrequent_exists:
  assumes "arr \<noteq> []"
  shows "filter (isMostFrequent arr) arr \<noteq> []"
proof -
  have "Max (occurrences arr ` set arr) \<in> occurrences arr ` set arr"
    using assms by (intro Max_in) auto
  then obtain x where "x \<in> set arr" "occurrences arr x = Max (occurrences arr ` set arr)"
    by auto
  then have "x \<in> set arr \<and> isMostFrequent arr x" by (simp add: isMostFrequent_iff)
  then show ?thesis by (auto simp: filter_empty_conv)
qed

text \<open>
  \<^bold>\<open>C8\<close>. On a non-empty array \<open>getMostFrequent\<close> returns a value of the array that no
  other value outnumbers, and among the values tied for the highest count it returns the
  one that stands last in the array: the result is the last element of the array, in
  iteration order, that has the highest count. This value is the condition of the summary
  of every group whose condition codes are the array, and so the condition the aggregator
  gives to a date is the vote among the condition codes of the samples of that date.
\<close>

theorem getMostFrequent_is_last_mode:
  assumes "arr \<noteq> []"
  shows "getMostFrequent arr = Some (last (filter (isMostFrequent arr) arr)) \<and>
         isMostFrequent arr (last (filter (isMostFrequent arr) arr)) \<and>
         last (filter (isMostFrequent arr) arr) \<in> set arr \<and>
         (\<forall>g. conditions g = arr \<longrightarrow>
            condition (summarise g) = last (filter (isMostFrequent arr) arr)) \<and>
         (\<forall>E items groups j.
            groupItems E items [] = Inr groups \<longrightarrow> j < length groups \<longrightarrow>
            map (\<lambda>it. hd (item_weather it))
              (filter (\<lambda>it. dateKey E it = fst (groups ! j)) items) = arr \<longrightarrow>
            condition (summarise (snd (groups ! j))) = last (filter (isMostFrequent arr) arr))"
proof -
  have "filter (isMostFrequent arr) arr \<noteq> []"
    using assms by (rule mostFrequent_exists)
  then have "last (filter (isMostFrequent arr) arr) \<in> set (filter (isMostFrequent arr) arr)"
    by (rule last_in_set)
  then have vote: "getMostFrequent arr = Some (last (filter (isMostFrequent arr) arr)) \<and>
         isMostFrequent arr (last (filter (isMostFrequent arr) arr)) \<and>
         last (filter (isMostFrequent arr) arr) \<in> set arr"
    using getMostFrequent_last_mode [OF assms] by simp
  then have day: "\<And>g. conditions g = arr \<Longrightarrow>
         condition (summarise g) = last (filter (isMostFrequent arr) arr)"
    by (simp add: summarise_def)
  have "condition (summarise (snd (groups ! j))) = last (filter (isMostFrequent arr) arr)"
    if "groupItems E items [] = Inr groups" and "j < length groups"
      and "map (\<lambda>it. hd (item_weather it))
              (filter (\<lambda>it. dateKey E it = fst (groups ! j)) items) = arr"
    for E items groups j
  proof -
    from groupItems_nth [OF that(1,2)] that(3)
    have "conditions (snd (groups ! j)) = arr"
      by (simp add: pushAll_newGroup)
    then show ?thesis by (rule day)
  qed
  with vote day show ?thesis by blast
qed

text \<open>
  Rain and Clouds both occur twice in \<open>tiedConditions\<close> and Rain stands last: the vote
  is Rain, and Rain is the condition of the summary of \<open>tiedGroup\<close>. With the two
  values alternating and Clouds last, the vote is Clouds. The second date of
  \<open>scenarioResponse\<close> has Clouds, Rain, Clouds: its condition is Clouds.
\<close>

theorem getMostFrequent_is_last_mode_witness:
  "tiedConditions \<noteq> [] \<and>
   filter (isMostFrequent tiedConditions) tiedConditions
     = [''Rain'', ''Clouds'', ''Clouds'', ''Rain''] \<and>
   getMostFrequent tiedConditions = Some ''Rain'' \<and>
   getMostFrequent [''Rain'', ''Clouds'', ''Rain'', ''Clouds''] = Some ''Clouds'' \<and>
   conditions tiedGroup = tiedConditions \<and>
   condition (summarise tiedGroup) = ''Rain'' \<and>
   (\<exists>groups.
      groupItems envLive scenarioResponse [] = Inr groups \<and> 1 < length groups \<and>
      map (\<lambda>it. hd (item_weather it))
        (filter (\<lambda>it. dateKey envLive it = fst (groups ! 1)) scenarioResponse)
        = [''Clouds'', ''Rain'', ''Clouds''] \<and>
      condition (summarise (snd (groups ! 1))) = ''Clouds'')"
proof -
  let ?alt = "[''Rain'', ''Clouds'', ''Rain'', ''Clouds'']"
  let ?day = "[''Clouds'', ''Rain'', ''Clouds'']"
  let ?groups = "[(20395, pushAll (take 1 scenarioResponse) (newGroup 20395)),
            (20396 :: int, pushAll scenarioItems (newGroup 20396))]"
  have ne: "tiedConditions \<noteq> []" by (simp add: tiedConditions_def)
  have f: "filter (isMostFrequent tiedConditions) tiedConditions
     = [''Rain'', ''Clouds'', ''Clouds'', ''Rain'']"
    by (simp add: tiedConditions_def isMostFrequent_def occurrences_def)
  have g: "filter (isMostFrequent ?alt) ?alt = ?alt"
    by (simp add: isMostFrequent_def occurrences_def)
  have h: "filter (isMostFrequent ?day) ?day = [''Clouds'', ''Clouds'']"
    by (simp add: isMostFrequent_def occurrences_def)
  have t: "conditions tiedGroup = tiedConditions" by (simp add: tiedGroup_def)
  have len: "1 < length ?groups" by simp
  have d: "map (\<lambda>it. hd (item_weather it))
        (filter (\<lambda>it. dateKey envLive it = fst (?groups ! 1)) scenarioResponse) = ?day"
    by (simp add: scenario_day) (simp add: scenarioItems_def)
  have "condition (summarise tiedGroup) = ''Rain''"
    "getMostFrequent tiedConditions = Some ''Rain''"
    using getMostFrequent_is_last_mode [OF ne] t f by simp_all
  moreover have "getMostFrequent ?alt = Some ''Clouds''"
    using getMostFrequent_is_last_mode [of ?alt] g by simp
  moreover have "condition (summarise (snd (?groups ! 1))) = ''Clouds''"
  proof -
    have "?day \<noteq> []" by simp
    note vote = getMostFrequent_is_last_mode [OF this]
    note each = vote [THEN conjunct2, THEN conjunct2, THEN conjunct2, THEN conjunct2,
      rule_format]
    have "condition (summarise (snd (?groups ! 1))) = last (filter (isMostFrequent ?day) ?day)"
      using scenario_groups len d by (rule each)
    then show ?thesis by (simp only: h) simp
  qed
  ultimately show ?thesis
    using ne f t scenario_groups len d
    by (intro conjI exI [of _ ?groups]) simp_all
qed

subsection \<open>The report from live data\<close>



lemma live_groups:
  "groupItems envLive liveForecast []
     = Inr [(20395, pushAll (take 1 liveForecast) (newGroup 20395)),
            (20396, pushAll (drop 1 liveForecast) (newGroup 20396))]"
proof -
  have "groupItems envLive (take 1 liveForecast @ drop 1 liveForecast) []
     = Inr [(20395, pushAll (take 1 liveForecast) (newGroup 20395)),
            (20396, pushAll (drop 1 liveForecast) (newGroup 20396))]"
    by (rule groupItems_two_dates)
      (simp_all add: liveForecast_def dateKey_def envLive_def)
  then show ?thesis by simp
qed

lemma live_build:
  "buildReport envLive (locationInfo delhiGeo) liveCurrent liveForecast = Inr liveReport"
  by (simp only: buildReport_def live_groups)
     (simp add: liveReport_def liveForecast_def liveCurrent_def locationInfo_def delhiGeo_def
       envLive_def pushAll_def generateFarmingAdvice_def pushedAdvice_def rainAdviceLow_def
       eval_defs)

lemma live_report:
  "fetchRealWeatherData envLive (locationInfo delhiGeo) (ui0 ''delhi'')
   = (Inr liveReport,
      (ui0 ''delhi'') \<lparr> requests := [CurrentWeather (28.6517, 77.2219),
                                      Forecast (28.6517, 77.2219)] \<rparr>)"
proof -
  have "weather_api envLive (coordinates (locationInfo delhiGeo)) = Inr liveCurrent"
    "forecast_api envLive (coordinates (locationInfo delhiGeo)) = Inr liveForecast"
    by (simp_all add: envLive_def)
  moreover have "coordinates (locationInfo delhiGeo) = (28.6517, 77.2219)"
    by (simp add: locationInfo_def delhiGeo_def)
  ultimately show ?thesis
    by (simp add: fetchRealWeatherData_def axios_get_def Let_def live_build ui0_def)
qed



text \<open>
  \<^bold>\<open>C5\<close>. The claim is that every condition of a fetched report is one of the six
  normalized values. The current reading is passed through \<open>getWeatherCondition\<close>; the
  forecast days are not: their condition is the most frequent provider value as received.
  With the provider of \<open>envLive\<close> the second forecast day has the condition Clear, which
  is not a normalized value (\<open>getWeatherCondition\<close> maps it to Sunny).
\<close>

theorem forecast_condition_not_normalized:
  "fst (fetchRealWeatherData envLive (locationInfo delhiGeo) (ui0 ''delhi'')) = Inr liveReport \<and>
   condition (forecast liveReport ! 1) = ''Clear'' \<and>
   ''Clear'' \<notin> set normalized \<and>
   getWeatherCondition ''Clear'' = ''Sunny'' \<and>
   condition (current liveReport) \<in> set normalized"
  by (simp add: live_report liveReport_def normalized_def getWeatherCondition_def
      conditions_table_def)

lemma getWeatherCondition_normalized: "getWeatherCondition m \<in> set normalized"
proof (cases "map_of conditions_table m")
  case None
  then show ?thesis by (simp add: getWeatherCondition_def normalized_def)
next
  case (Some c)
  then have "(m, c) \<in> set conditions_table" by (rule map_of_SomeD)
  then have "c \<in> set normalized"
    by (auto simp: conditions_table_def normalized_def)
  with Some show ?thesis by (simp add: getWeatherCondition_def)
qed

lemma getWeatherCondition_unmapped:
  "m \<notin> fst ` set conditions_table \<Longrightarrow> getWeatherCondition m = ''Partly Cloudy''"
  by (simp add: getWeatherCondition_def map_of_eq_None_iff [THEN iffD2])

subsection \<open>The location resolver\<close>

text \<open>
  \<^bold>\<open>C3\<close>, as stated, has the text \<^verbatim>\<open>delhi\<close> resolved from a built-in list with no
  network call. The component holds no such list: the resolver sends the text to the
  geocoding provider. With the provider of \<open>envLive\<close> the request is issued and the
  coordinates are the provider's (28.6517, 77.2219); with a provider that returns no
  candidate the same text is not resolved at all.
\<close>

theorem delhi_needs_geocoder_counterexample:
  "requests (snd (resolveLocation envLive ''delhi'' (ui0 ''delhi''))) = [GeoDirect ''delhi'' 5] \<and>
   map_sum id coordinates (fst (resolveLocation envLive ''delhi'' (ui0 ''delhi'')))
     = Inr (28.6517, 77.2219) \<and>
   fst (resolveLocation envOffline ''delhi'' (ui0 ''delhi''))
     = Inl (Error (''Unable to find location '' @ quoted ''delhi'' @ ''. Location ''
            @ quoted ''delhi'' @ '' not found. Please check spelling or try a nearby city.''))"
  by (simp add: resolve_defs envLive_def envOffline_def ui0_def locationInfo_def delhiGeo_def)

text \<open>
  \<^bold>\<open>C3\<close>, amended. For every input text of at least two characters after trimming, the
  text \<^verbatim>\<open>delhi\<close> included, and with the API configuration present, the resolver issues
  exactly one request to the geocoding provider (the trimmed text, at most 5 candidates).
  When the provider returns candidates the location is the first candidate, with its
  coordinates; when it returns none the resolver fails.
\<close>

theorem resolveLocation_always_geocodes:
  assumes "2 \<le> length (trim text)" and "truthy (API_KEY E)" and "truthy (BASE_URL E)"
  shows "requests (snd (resolveLocation E text s)) = requests s @ [GeoDirect (trim text) 5] \<and>
         (\<forall>g gs. geo_api E (trim text) = Inr (g # gs) \<longrightarrow>
            fst (resolveLocation E text s) = Inr (locationInfo g) \<and>
            coordinates (locationInfo g) = (geo_lat g, geo_lon g)) \<and>
         (geo_api E (trim text) = Inr [] \<longrightarrow> isl (fst (resolveLocation E text s)))"
proof -
  from assms(1) have "trim text \<noteq> []" "\<not> length (trim text) < 2" by auto
  then show ?thesis
    using assms(2,3)
    by (auto simp: resolveLocation_def resolveLocation_try_def axios_get_def Let_def
        locationInfo_def split: sum.splits list.splits)
qed

theorem resolveLocation_always_geocodes_witness:
  "2 \<le> length (trim ''delhi'') \<and> truthy (API_KEY envLive) \<and> truthy (BASE_URL envLive) \<and>
   geo_api envLive (trim ''delhi'') = Inr [delhiGeo] \<and>
   requests (snd (resolveLocation envLive ''delhi'' (ui0 ''delhi''))) = [GeoDirect ''delhi'' 5] \<and>
   fst (resolveLocation envLive ''delhi'' (ui0 ''delhi'')) = Inr (locationInfo delhiGeo) \<and>
   coordinates (locationInfo delhiGeo) = (28.6517, 77.2219) \<and>
   geo_api envOffline (trim ''delhi'') = Inr [] \<and>
   isl (fst (resolveLocation envOffline ''delhi'' (ui0 ''delhi'')))"
proof -
  have t: "trim ''delhi'' = ''delhi''" by (simp add: trim_def is_ws_def)
  have len: "2 \<le> length (trim ''delhi'')" by (simp add: t)
  have k: "truthy (API_KEY envLive)" "truthy (BASE_URL envLive)"
    "truthy (API_KEY envOffline)" "truthy (BASE_URL envOffline)"
    by (simp_all add: truthy_def envLive_def envOffline_def)
  have g: "geo_api envLive (trim ''delhi'') = Inr [delhiGeo]"
    "geo_api envOffline (trim ''delhi'') = Inr []"
    by (simp_all add: t envLive_def envOffline_def)
  have c: "(geo_lat delhiGeo, geo_lon delhiGeo) = (28.6517, 77.2219)"
    "requests (ui0 ''delhi'') = []"
    by (simp_all add: delhiGeo_def ui0_def)
  from resolveLocation_always_geocodes [OF len k(1,2), of "ui0 ''delhi''"]
    resolveLocation_always_geocodes [OF len k(3,4), of "ui0 ''delhi''"] len k g c t
  show ?thesis by simp
qed

text \<open>
  The validation of the text. The resolver rejects every text that is empty or, after
  trimming, shorter than two characters, and changes nothing: no request is issued. On an
  empty or blank text the component sets the validation error and stops: it issues no
  request and produces no report.
\<close>

lemma short_text_rejected_before_network:
  assumes "length (trim text) < 2"
  shows "resolveLocation E text s
           = (Inl (Error (if trim text = [] then ''Please enter a location name''
                          else ''Location name must be at least 2 characters long'')), s) \<and>
         (trim text = [] \<longrightarrow>
            fetchWeatherData E (s \<lparr> selectedLocation := text \<rparr>)
              = s \<lparr> selectedLocation := text, error := Some ''Please enter a location name'' \<rparr>)"
  using assms by (simp add: resolveLocation_def fetchWeatherData_def Let_def)

text \<open>
  \<^bold>\<open>C2\<close>. The claim is that every text shorter than two characters after trimming
  ends in a validation error that blocks the report, with no fallback. For a text of one
  character the component does not do so. With the text \<^verbatim>\<open>a\<close> the resolver throws
  its message (that the name must be at least 2 characters long) before any request, and
  the \<^verbatim>\<open>catch\<close> block of the component, written for a failing API, stores a
  synthetic report for the location \<^verbatim>\<open>a\<close> and clears the message: the run ends with
  a report, no error and no request issued, where a blank text ends with the error and no
  report.
\<close>

theorem one_character_text_gets_mock_report:
  "length (trim ''a'') < 2 \<and>
   fst (resolveLocation envOffline ''a'' (ui0 ''a''))
     = Inl (Error ''Location name must be at least 2 characters long'') \<and>
   weatherData (fetchWeatherData envOffline (ui0 ''a''))
     = Some (generateMockWeatherData (\<lambda>k. 1 / 2) 20395 ''a'') \<and>
   error (fetchWeatherData envOffline (ui0 ''a'')) = None \<and>
   requests (fetchWeatherData envOffline (ui0 ''a'')) = [] \<and>
   weatherData (fetchWeatherData envOffline (ui0 ''  '')) = None \<and>
   error (fetchWeatherData envOffline (ui0 ''  '')) = Some ''Please enter a location name''"
  by (simp add: fetchWeatherData_def tryBlock_def catchBlock_def resolve_defs envOffline_def
      ui0_def)

subsection \<open>The orchestrator\<close>

lemma resolveLocation_try_selected:
  "selectedLocation (snd (resolveLocation_try E t s)) = selectedLocation s"
  by (simp add: resolveLocation_try_def axios_get_def Let_def split: sum.splits list.splits)

lemma resolveLocation_selected:
  "selectedLocation (snd (resolveLocation E t s)) = selectedLocation s"
proof -
  have "selectedLocation (snd (resolveLocation_try E (trim t) (s \<lparr> locationResolving := True \<rparr>)))
        = selectedLocation s"
    by (simp add: resolveLocation_try_selected)
  then show ?thesis
    by (auto simp: resolveLocation_def Let_def split: prod.splits sum.splits)
qed

lemma fetchRealWeatherData_selected:
  "selectedLocation (snd (fetchRealWeatherData E loc s)) = selectedLocation s"
  by (simp add: fetchRealWeatherData_def axios_get_def Let_def split: sum.splits)

lemma tryBlock_selected: "selectedLocation (snd (tryBlock E s)) = selectedLocation s"
proof (cases "resolveLocation E (selectedLocation s) s")
  case (Pair r s1)
  then have s1: "selectedLocation s1 = selectedLocation s"
    using resolveLocation_selected [of E "selectedLocation s" s] by simp
  show ?thesis
  proof (cases r)
    case (Inl e)
    with Pair s1 show ?thesis by (simp add: tryBlock_def)
  next
    case (Inr loc)
    obtain r2 s2 where f: "fetchRealWeatherData E loc s1 = (r2, s2)"
      by (cases "fetchRealWeatherData E loc s1")
    then have "selectedLocation s2 = selectedLocation s1"
      using fetchRealWeatherData_selected [of E loc s1] by simp
    with Pair Inr f s1 show ?thesis
      by (cases r2) (simp_all add: tryBlock_def)
  qed
qed

lemma trim_Nil: "trim [] = []"
  by (simp add: trim_def)

lemma offline_try:
  "tryBlock envOffline ((ui0 ''zzzzz'') \<lparr> loading := True, error := None \<rparr>)
   = (Inl (Error (''Unable to find location '' @ quoted ''zzzzz'' @ ''. Location ''
            @ quoted ''zzzzz'' @ '' not found. Please check spelling or try a nearby city.'')),
      (ui0 ''zzzzz'') \<lparr> loading := True, requests := [GeoDirect ''zzzzz'' 5] \<rparr>)"
  by (simp add: tryBlock_def resolve_defs envOffline_def ui0_def)

text \<open>
  \<^bold>\<open>C1\<close>, as stated, has a failed run leave a visible error message beside the
  synthetic report. The \<^verbatim>\<open>catch\<close> block sets the message, stores the synthetic
  report and then clears the message (\<^verbatim>\<open>setError(null)\<close>), so the error banner, shown
  only while \<open>error\<close> is set, is not rendered. When the provider returns no candidate for
  \<^verbatim>\<open>zzzzz\<close> the run ends with a report and no error.
\<close>

theorem advisory_cleared_counterexample:
  "geo_api envOffline ''zzzzz'' = Inr [] \<and>
   weatherData (fetchWeatherData envOffline (ui0 ''zzzzz'')) \<noteq> None \<and>
   error (fetchWeatherData envOffline (ui0 ''zzzzz'')) = None"
  by (simp add: fetchWeatherData_def offline_try catchBlock_def Let_def)
     (simp add: envOffline_def ui0_def trim_def is_ws_def)

text \<open>
  \<^bold>\<open>C1\<close>, amended. For every run on a text of at least two characters after trimming
  in which the location resolution or the weather fetch fails, the component stores a full
  synthetic report (seven days, generated for the text as typed), and it ends with the
  error message cleared and the loading flag off: no advisory stays.
\<close>

theorem failure_yields_mock_without_error:
  assumes "2 \<le> length (trim (selectedLocation s))"
    and "fst (tryBlock E (s \<lparr> loading := True, error := None \<rparr>)) = Inl err"
  shows "weatherData (fetchWeatherData E s)
           = Some (generateMockWeatherData (random E) (today E) (selectedLocation s)) \<and>
         length (forecast (generateMockWeatherData (random E) (today E) (selectedLocation s)))
           = 7 \<and>
         error (fetchWeatherData E s) = None \<and>
         loading (fetchWeatherData E s) = False"
proof -
  let ?s1 = "s \<lparr> loading := True, error := None \<rparr>"
  obtain s2 where t: "tryBlock E ?s1 = (Inl err, s2)"
    using assms(2) by (cases "tryBlock E ?s1") simp
  have "selectedLocation s2 = selectedLocation s"
    using tryBlock_selected [of E ?s1] t by simp
  moreover have "trim (selectedLocation s) \<noteq> []" using assms(1) by auto
  moreover from this have "selectedLocation s \<noteq> []" using trim_Nil by auto
  ultimately show ?thesis
    by (simp add: fetchWeatherData_def Let_def t catchBlock_def mock_length)
qed

text \<open>
  The scenario of the claim: the provider returns no candidate for \<^verbatim>\<open>zzzzz\<close>, the
  resolver fails, and the run ends with the synthetic report and no error.
\<close>

theorem failure_yields_mock_without_error_witness:
  "2 \<le> length (trim (selectedLocation (ui0 ''zzzzz''))) \<and>
   geo_api envOffline ''zzzzz'' = Inr [] \<and>
   fst (tryBlock envOffline ((ui0 ''zzzzz'') \<lparr> loading := True, error := None \<rparr>))
     = Inl (Error (''Unable to find location '' @ quoted ''zzzzz'' @ ''. Location ''
            @ quoted ''zzzzz'' @ '' not found. Please check spelling or try a nearby city.'')) \<and>
   weatherData (fetchWeatherData envOffline (ui0 ''zzzzz''))
     = Some (generateMockWeatherData (\<lambda>k. 1 / 2) 20395 ''zzzzz'') \<and>
   error (fetchWeatherData envOffline (ui0 ''zzzzz'')) = None"
proof -
  have len: "2 \<le> length (trim (selectedLocation (ui0 ''zzzzz'')))"
    by (simp add: ui0_def trim_def is_ws_def)
  have t: "fst (tryBlock envOffline ((ui0 ''zzzzz'') \<lparr> loading := True, error := None \<rparr>))
     = Inl (Error (''Unable to find location '' @ quoted ''zzzzz'' @ ''. Location ''
            @ quoted ''zzzzz'' @ '' not found. Please check spelling or try a nearby city.''))"
    by (simp add: offline_try)
  have e: "random envOffline = (\<lambda>k. 1 / 2)" "today envOffline = 20395"
    "geo_api envOffline ''zzzzz'' = Inr []" "selectedLocation (ui0 ''zzzzz'') = ''zzzzz''"
    by (simp_all add: envOffline_def ui0_def)
  from failure_yields_mock_without_error [OF len t] len t e show ?thesis
    by simp
qed

end
